theory Spec2Isabelle
  imports Complex_Main "HOL-Library.Multiset"
begin

section \<open>NumPy floating-point values\<close>

text \<open>
  The scorers and the combiner work on NumPy arrays of \<^verbatim>\<open>float64\<close>. A value
  is modelled as a real number or one of the three IEEE special values. Arithmetic on
  finite values is exact (rounding and overflow are not modelled) and the two zeros are
  not distinguished; the special values follow IEEE 754 as NumPy implements it.
\<close>

datatype npfloat = Fin real | PInf | NInf | NaN

fun isnan :: "npfloat \<Rightarrow> bool" where
  "isnan NaN = True"
| "isnan _ = False"

fun fl_neg :: "npfloat \<Rightarrow> npfloat" where
  "fl_neg (Fin a) = Fin (- a)"
| "fl_neg PInf = NInf"
| "fl_neg NInf = PInf"
| "fl_neg NaN = NaN"

fun fl_add :: "npfloat \<Rightarrow> npfloat \<Rightarrow> npfloat" where
  "fl_add (Fin a) (Fin b) = Fin (a + b)"
| "fl_add NaN _ = NaN"
| "fl_add _ NaN = NaN"
| "fl_add PInf NInf = NaN"
| "fl_add NInf PInf = NaN"
| "fl_add PInf _ = PInf"
| "fl_add _ PInf = PInf"
| "fl_add NInf _ = NInf"
| "fl_add _ NInf = NInf"

definition fl_sub :: "npfloat \<Rightarrow> npfloat \<Rightarrow> npfloat" where
  "fl_sub a b = fl_add a (fl_neg b)"

text \<open>The sign of a finite factor decides the product with an infinity.\<close>

definition signed_inf :: "real \<Rightarrow> npfloat" where
  "signed_inf a = (if 0 < a then PInf else if a < 0 then NInf else NaN)"

fun fl_mul :: "npfloat \<Rightarrow> npfloat \<Rightarrow> npfloat" where
  "fl_mul (Fin a) (Fin b) = Fin (a * b)"
| "fl_mul NaN _ = NaN"
| "fl_mul _ NaN = NaN"
| "fl_mul (Fin a) PInf = signed_inf a"
| "fl_mul (Fin a) NInf = signed_inf (- a)"
| "fl_mul PInf (Fin b) = signed_inf b"
| "fl_mul NInf (Fin b) = signed_inf (- b)"
| "fl_mul PInf PInf = PInf"
| "fl_mul NInf NInf = PInf"
| "fl_mul PInf NInf = NInf"
| "fl_mul NInf PInf = NInf"

text \<open>
  Division: a finite non-zero value over zero is an infinity of the sign of the
  numerator (the zero is taken as positive), zero over zero is NaN, a finite value over
  an infinity is zero and an infinity over an infinity is NaN.
\<close>

fun fl_div :: "npfloat \<Rightarrow> npfloat \<Rightarrow> npfloat" where
  "fl_div (Fin a) (Fin b) = (if b = 0 then signed_inf a else Fin (a / b))"
| "fl_div NaN _ = NaN"
| "fl_div _ NaN = NaN"
| "fl_div (Fin a) PInf = Fin 0"
| "fl_div (Fin a) NInf = Fin 0"
| "fl_div PInf (Fin b) = (if 0 \<le> b then PInf else NInf)"
| "fl_div NInf (Fin b) = (if 0 \<le> b then NInf else PInf)"
| "fl_div PInf _ = NaN"
| "fl_div NInf _ = NaN"

text \<open>Comparisons are false as soon as one side is NaN.\<close>

fun fl_gt :: "npfloat \<Rightarrow> npfloat \<Rightarrow> bool" where
  "fl_gt (Fin a) (Fin b) = (b < a)"
| "fl_gt NaN _ = False"
| "fl_gt _ NaN = False"
| "fl_gt PInf PInf = False"
| "fl_gt PInf _ = True"
| "fl_gt NInf _ = False"
| "fl_gt (Fin a) NInf = True"
| "fl_gt (Fin a) PInf = False"

definition fl_eq :: "npfloat \<Rightarrow> npfloat \<Rightarrow> bool" where
  "fl_eq a b = (\<not> isnan a \<and> a = b)"

definition fl_ge :: "npfloat \<Rightarrow> npfloat \<Rightarrow> bool" where
  "fl_ge a b = (fl_gt a b \<or> fl_eq a b)"

fun fl_log :: "npfloat \<Rightarrow> npfloat" where
  "fl_log (Fin a) = (if 0 < a then Fin (ln a) else if a = 0 then NInf else NaN)"
| "fl_log PInf = PInf"
| "fl_log NInf = NaN"
| "fl_log NaN = NaN"

fun fl_exp :: "npfloat \<Rightarrow> npfloat" where
  "fl_exp (Fin a) = Fin (exp a)"
| "fl_exp PInf = PInf"
| "fl_exp NInf = Fin 0"
| "fl_exp NaN = NaN"

text \<open>\<^verbatim>\<open>np.sqrt\<close>, also \<^verbatim>\<open>x ** .5\<close> on a non-negative base.\<close>

fun fl_sqrt :: "npfloat \<Rightarrow> npfloat" where
  "fl_sqrt (Fin a) = (if 0 \<le> a then Fin (sqrt a) else NaN)"
| "fl_sqrt PInf = PInf"
| "fl_sqrt NInf = NaN"
| "fl_sqrt NaN = NaN"

text \<open>\<^verbatim>\<open>np.clip(x, lo, None)\<close>: the maximum of \<open>x\<close> and \<open>lo\<close>; NaN stays NaN.\<close>

fun fl_clip_low :: "real \<Rightarrow> npfloat \<Rightarrow> npfloat" where
  "fl_clip_low lo (Fin a) = Fin (max a lo)"
| "fl_clip_low lo PInf = PInf"
| "fl_clip_low lo NInf = Fin lo"
| "fl_clip_low lo NaN = NaN"

text \<open>\<^verbatim>\<open>np.sum\<close> of a flat array; the sum of no element is \<open>0.0\<close>.\<close>

primrec fl_sum :: "npfloat list \<Rightarrow> npfloat" where
  "fl_sum [] = Fin 0"
| "fl_sum (x # xs) = fl_add x (fl_sum xs)"

text \<open>\<^verbatim>\<open>np.sum(a) / a.size\<close> and \<^verbatim>\<open>np.mean\<close>.\<close>

definition fl_mean :: "npfloat list \<Rightarrow> npfloat" where
  "fl_mean xs = fl_div (fl_sum xs) (Fin (real (length xs)))"

section \<open>Errors and arrays\<close>

datatype error =
    ValueError string
  | AssertionError
  | IndexError
  | OverflowError
  | ZeroDivisionError

text \<open>
  A two-dimensional array is the list of its rows and a three-dimensional array the list
  of its planes. NumPy arrays are rectangular; a nested list stands for an array when
  it is rectangular, and an array with an axis of length zero is outside the model
  (the list of no row does not record the row length).
\<close>

definition rectangular :: "'a list list \<Rightarrow> bool" where
  "rectangular xss = (case xss of [] \<Rightarrow> True | r # _ \<Rightarrow> list_all (\<lambda>row. length row = length r) xss)"

text \<open>\<^verbatim>\<open>a.swapaxes(0, 1)\<close> on the two leading axes.\<close>

definition swapaxes :: "'a list list \<Rightarrow> 'a list list" where
  "swapaxes xss = (case xss of [] \<Rightarrow> []
     | r # _ \<Rightarrow> map (\<lambda>j. map (\<lambda>row. row ! j) xss) [0..<length r])"

text \<open>
  \<^verbatim>\<open>xs[i]\<close> on a Python list or along one axis of an array: positions
  \<open>0 .. len - 1\<close> read as they are, positions \<open>-len .. -1\<close> read from the end,
  anything else is an IndexError.
\<close>

definition py_index :: "'a list \<Rightarrow> int \<Rightarrow> error + 'a" where
  "py_index xs i =
     (if 0 \<le> i \<and> i < int (length xs) then Inr (xs ! nat i)
      else if i < 0 \<and> - int (length xs) \<le> i then Inr (xs ! nat (int (length xs) + i))
      else Inl IndexError)"

text \<open>
  The ground truth is one-dimensional (one value per sample) or two-dimensional
  (samples by dimensions). Every scorer starts with
  \<^verbatim>\<open>if len(y_true.shape) == 1: y_true = np.array([y_true])\<close>
  \<^verbatim>\<open>else: y_true = y_true.swapaxes(0, 1)\<close>.
\<close>

datatype ytrue = Y1 "npfloat list" | Y2 "npfloat list list"

fun normalise_y_true :: "ytrue \<Rightarrow> npfloat list list" where
  "normalise_y_true (Y1 v) = [v]"
| "normalise_y_true (Y2 m) = swapaxes m"

section \<open>The binned likelihood scorer\<close>

definition WORST_LK :: real where
  "WORST_LK = - 50"

text \<open>The class attributes of \<^verbatim>\<open>NegativeLogLikelihoodReg\<close>.\<close>

record score_type =
  is_lower_the_better :: bool
  minimum :: npfloat
  maximum :: npfloat

definition NegativeLogLikelihoodReg_attrs :: score_type where
  "NegativeLogLikelihoodReg_attrs =
     \<lparr>is_lower_the_better = True, minimum = fl_neg PInf, maximum = PInf\<rparr>"

text \<open>
  \<^verbatim>\<open>bins = y_pred[:, :, :self.n_bins + 1].swapaxes(1, 0)\<close> and
  \<^verbatim>\<open>prob = y_pred[:, :, self.n_bins + 1: 2 * self.n_bins + 1].swapaxes(1, 0)\<close>:
  \<open>y_pred\<close> is indexed by sample, dimension and position, the slices by dimension,
  sample and position.
\<close>

definition bins_of :: "nat \<Rightarrow> npfloat list list list \<Rightarrow> npfloat list list list" where
  "bins_of n_bins y_pred = swapaxes (map (map (take (n_bins + 1))) y_pred)"

definition prob_of :: "nat \<Rightarrow> npfloat list list list \<Rightarrow> npfloat list list list" where
  "prob_of n_bins y_pred = swapaxes (map (map (\<lambda>v. take n_bins (drop (n_bins + 1) v))) y_pred)"

definition contains_nan :: "npfloat list list list \<Rightarrow> bool" where
  "contains_nan a = list_ex (list_ex (list_ex isnan)) a"

definition nan_message :: string where
  "nan_message =
     ''The output of the regressor contains nans, or isof the wrong shape. '' @ [CHR 0x0A] @
     ''                It should be (time_step, dim_step, bins+probas)''"

text \<open>
  \<^verbatim>\<open>summed_prob = np.sum(prob, axis=2, keepdims=True)\<close>;
  \<^verbatim>\<open>if not np.all(summed_prob == 1): prob = (prob / summed_prob)\<close>: as soon as one
  row does not sum to one, every row is divided by its own sum.
\<close>

definition renormalise :: "npfloat list list list \<Rightarrow> npfloat list list list" where
  "renormalise prob =
     (if list_all (list_all (\<lambda>row. fl_eq (fl_sum row) (Fin 1))) prob then prob
      else map (map (\<lambda>row. map (\<lambda>p. fl_div p (fl_sum row)) row)) prob)"

text \<open>
  \<^verbatim>\<open>any(time_step[i] >= time_step[i + 1] for i in range(len(time_step) - 1))\<close>
  for one vector of edges.
\<close>

definition unordered :: "npfloat list \<Rightarrow> bool" where
  "unordered time_step =
     list_ex (\<lambda>i. fl_ge (time_step ! i) (time_step ! Suc i)) [0..<length time_step - 1]"

definition bins_message :: string where
  "bins_message = ''Bins must be ordered and non empty''"

text \<open>
  The search for the bin of one cell. \<open>class_loop\<close> is the loop
  \<^verbatim>\<open>for k in range(1, len(dim))\<close> on the edges from position \<open>k\<close> on: the first edge
  above the truth gives the class \<open>k - 1\<close> and ends the loop, and the last edge, when it is
  not above the truth, gives \<open>-1\<close>. \<open>None\<close> is an entry that the loop leaves at its
  initial NaN, which happens only for a vector of a single edge.
\<close>

primrec class_loop :: "npfloat list \<Rightarrow> npfloat \<Rightarrow> nat \<Rightarrow> int option" where
  "class_loop [] truth k = None"
| "class_loop (e # es) truth k =
     (if fl_gt e truth then Some (int k - 1)
      else if es = [] then Some (- 1)
      else class_loop es truth (Suc k))"

definition class_of :: "npfloat list \<Rightarrow> npfloat \<Rightarrow> int option" where
  "class_of edges truth =
     (case edges of
        [] \<Rightarrow> None
      | d0 # rest \<Rightarrow> if fl_gt d0 truth then Some (- 1) else class_loop rest truth 1)"

text \<open>
  The loops over the cells read \<^verbatim>\<open>y_true[i, j]\<close> for every cell of \<open>bins\<close>,
  write \<^verbatim>\<open>bins_sliding[i, j, k]\<close> for every pair of neighbouring edges and index
  \<^verbatim>\<open>prob_dim[range(len(classes)), classes]\<close>. On arrays with at least one cell they run
  without IndexError exactly when the ground truth has a row for each dimension of the
  prediction, with as many samples as the prediction, and every cell has
  \<open>n_bins + 1\<close> edges and \<open>n_bins\<close> probabilities with \<open>n_bins\<close> at least one.
\<close>

definition shapes_agree ::
  "nat \<Rightarrow> npfloat list list \<Rightarrow> npfloat list list list \<Rightarrow> npfloat list list list \<Rightarrow> bool" where
  "shapes_agree n_bins y_true bins prob =
     (length bins \<le> length y_true \<and> length prob = length bins \<and>
      list_all (\<lambda>i. length (bins ! i) = length (y_true ! i) \<and>
                    length (prob ! i) = length (bins ! i) \<and>
                    list_all (\<lambda>edges. length edges = n_bins + 1 \<and> 1 \<le> n_bins) (bins ! i) \<and>
                    list_all (\<lambda>p. length p = n_bins) (prob ! i))
        [0..<length bins])"

definition classes_matrix :: "npfloat list list \<Rightarrow> npfloat list list list \<Rightarrow> int option list list" where
  "classes_matrix y_true bins = map2 (\<lambda>dim_bin truths. map2 class_of dim_bin truths) bins y_true"

definition bins_sliding :: "npfloat list list list \<Rightarrow> npfloat list list list" where
  "bins_sliding bins =
     map (map (\<lambda>dim_t. map (\<lambda>k. fl_sub (dim_t ! Suc k) (dim_t ! k)) [0..<length dim_t - 1])) bins"

text \<open>
  \<^verbatim>\<open>row[class]\<close> followed by the overwriting of the entries of class \<open>-1\<close>
  (\<^verbatim>\<open>preds[classes == -1] = 0\<close>, \<^verbatim>\<open>bins[classes == -1] = -1\<close>).
\<close>

definition take_class :: "npfloat \<Rightarrow> int option \<Rightarrow> npfloat list \<Rightarrow> npfloat" where
  "take_class outside cls row =
     (case cls of None \<Rightarrow> NaN | Some c \<Rightarrow> if c = - 1 then outside else row ! nat c)"

definition preds_matrix :: "int option list list \<Rightarrow> npfloat list list list \<Rightarrow> npfloat list list" where
  "preds_matrix classes prob = map2 (\<lambda>cs prob_dim. map2 (take_class (Fin 0)) cs prob_dim) classes prob"

definition selected_bins :: "int option list list \<Rightarrow> npfloat list list list \<Rightarrow> npfloat list list" where
  "selected_bins classes sliding =
     map2 (\<lambda>cs bin_dim. map2 (take_class (Fin (- 1))) cs bin_dim) classes sliding"

text \<open>
  \<^verbatim>\<open>lk = np.log(preds_matrix / selected_bins)\<close>,
  \<^verbatim>\<open>lk = np.clip(lk, WORST_LK, None, out=lk)\<close>.
\<close>

definition lk_matrix :: "npfloat list list \<Rightarrow> npfloat list list \<Rightarrow> npfloat list list" where
  "lk_matrix preds sel =
     map2 (\<lambda>ps bs. map2 (\<lambda>p b. fl_clip_low WORST_LK (fl_log (fl_div p b))) ps bs) preds sel"

text \<open>The matrix \<open>lk\<close> that the call computes from the normalised ground truth and the slices.\<close>

definition binned_lk :: "npfloat list list \<Rightarrow> npfloat list list list \<Rightarrow> npfloat list list list \<Rightarrow> npfloat list list" where
  "binned_lk y_true bins prob =
     (let classes = classes_matrix y_true bins
      in lk_matrix (preds_matrix classes prob) (selected_bins classes (bins_sliding bins)))"

text \<open>\<^verbatim>\<open>NegativeLogLikelihoodReg.__call__\<close>; the result is \<^verbatim>\<open>np.sum(-lk) / lk.size\<close>.\<close>

definition NegativeLogLikelihoodReg :: "nat \<Rightarrow> ytrue \<Rightarrow> npfloat list list list \<Rightarrow> error + npfloat" where
  "NegativeLogLikelihoodReg n_bins y_true y_pred =
     (let yt = normalise_y_true y_true;
          bins = bins_of n_bins y_pred;
          prob = prob_of n_bins y_pred
      in if contains_nan bins \<or> contains_nan prob then Inl (ValueError nan_message)
         else let prob' = renormalise prob
              in if list_ex (list_ex unordered) bins then Inl (ValueError bins_message)
                 else if \<not> shapes_agree n_bins yt bins prob' then Inl IndexError
                 else let lk = concat (binned_lk yt bins prob')
                      in Inr (fl_div (fl_sum (map fl_neg lk)) (Fin (real (length lk)))))"

section \<open>The baseline of the ratio scorers\<close>

text \<open>
  \<^verbatim>\<open>np.std\<close> of one row: the square root of the mean squared deviation from the mean.
\<close>

definition fl_std :: "npfloat list \<Rightarrow> npfloat" where
  "fl_std xs =
     (let m = fl_mean xs
      in fl_sqrt (fl_mean (map (\<lambda>x. fl_mul (fl_sub x m) (fl_sub x m)) xs)))"

text \<open>
  \<^verbatim>\<open>scipy.stats.norm.logpdf(x, loc, scale)\<close>: NaN unless the scale is positive, NaN
  on a NaN argument, minus infinity outside the open support, and otherwise
  \<open>- z\<^sup>2 / 2 - log (sqrt (2 \<pi>)) - log scale\<close> at \<open>z = (x - loc) / scale\<close>.
\<close>

definition norm_logpdf :: "npfloat \<Rightarrow> npfloat \<Rightarrow> npfloat \<Rightarrow> npfloat" where
  "norm_logpdf x loc scale =
     (if \<not> fl_gt scale (Fin 0) then NaN
      else let z = fl_div (fl_sub x loc) scale
           in if isnan z then NaN
              else if z = PInf \<or> z = NInf then NInf
              else fl_sub (fl_sub (fl_neg (fl_div (fl_mul z z) (Fin 2))) (Fin (ln (sqrt (2 * pi)))))
                          (fl_log scale))"

text \<open>
  The lines that both ratio scorers share, on the normalised ground truth:
  \<^verbatim>\<open>means = np.mean(y_true, axis=1)\<close>, \<^verbatim>\<open>stds = np.std(y_true, axis=1)\<close>,
  \<^verbatim>\<open>baseline_lls = np.array([norm.logpdf(y, loc=mean, scale=std) for ...])\<close>.
\<close>

definition baseline_lls :: "npfloat list list \<Rightarrow> npfloat list list" where
  "baseline_lls y_true = map (\<lambda>y. map (\<lambda>v. norm_logpdf v (fl_mean y) (fl_std y)) y) y_true"

text \<open>\<^verbatim>\<open>np.exp(-nll_reg - np.sum(baseline_lls) / baseline_lls.size)\<close>.\<close>

definition ratio_of :: "npfloat \<Rightarrow> npfloat list list \<Rightarrow> npfloat" where
  "ratio_of nll_reg lls =
     fl_exp (fl_sub (fl_neg nll_reg)
                    (fl_div (fl_sum (concat lls)) (Fin (real (length (concat lls))))))"

text \<open>\<^verbatim>\<open>LikelihoodRatio.__call__\<close>: an error of the wrapped scorer ends the call.\<close>

definition LikelihoodRatio :: "nat \<Rightarrow> ytrue \<Rightarrow> npfloat list list list \<Rightarrow> error + npfloat" where
  "LikelihoodRatio n_bins y_true y_pred =
     (case NegativeLogLikelihoodReg n_bins y_true y_pred of
        Inl err \<Rightarrow> Inl err
      | Inr nll_reg \<Rightarrow> Inr (ratio_of nll_reg (baseline_lls (normalise_y_true y_true))))"

section \<open>The mixture likelihood scorer\<close>

text \<open>The class attributes of \<^verbatim>\<open>NegativeLogLikelihoodRegGaussian\<close>.\<close>

definition NegativeLogLikelihoodRegGaussian_attrs :: score_type where
  "NegativeLogLikelihoodRegGaussian_attrs =
     \<lparr>is_lower_the_better = True, minimum = Fin 0, maximum = PInf\<rparr>"

text \<open>\<^verbatim>\<open>normpdf\<close>, on one element.\<close>

definition normpdf :: "npfloat \<Rightarrow> npfloat \<Rightarrow> npfloat \<Rightarrow> npfloat" where
  "normpdf x mean sd =
     (let var = fl_mul sd sd;
          denom = fl_sqrt (fl_mul (Fin (2 * pi)) var);
          diff = fl_sub x mean;
          num = fl_exp (fl_div (fl_neg (fl_mul diff diff)) (fl_mul (Fin 2) var))
      in fl_div num denom)"

text \<open>
  \<^verbatim>\<open>int(x)\<close> on a float: truncation towards zero, ValueError on NaN and
  OverflowError on an infinity.
\<close>

fun py_int :: "npfloat \<Rightarrow> error + int" where
  "py_int (Fin a) = Inr (if 0 \<le> a then \<lfloor>a\<rfloor> else \<lceil>a\<rceil>)"
| "py_int NaN = Inl (ValueError ''cannot convert float NaN to integer'')"
| "py_int PInf = Inl OverflowError"
| "py_int NInf = Inl OverflowError"

text \<open>
  The slice \<^verbatim>\<open>row[a:b]\<close>: a negative bound counts from the end, and both bounds are
  clamped to the row.
\<close>

definition py_slice :: "int \<Rightarrow> int \<Rightarrow> 'a list \<Rightarrow> 'a list" where
  "py_slice a b xs =
     (let n = int (length xs);
          a' = (if a < 0 then max (a + n) 0 else min a n);
          b' = (if b < 0 then max (b + n) 0 else min b n)
      in take (nat (b' - a')) (drop (nat a') xs))"

text \<open>
  One entry of \<^verbatim>\<open>np.allclose(w, 1.0)\<close>, with the default tolerances
  \<^verbatim>\<open>rtol=1e-05\<close> and \<^verbatim>\<open>atol=1e-08\<close>.
\<close>

fun close_to_one :: "npfloat \<Rightarrow> bool" where
  "close_to_one (Fin a) = (\<bar>a - 1\<bar> \<le> 1 / 10 ^ 8 + 1 / 10 ^ 5 * 1)"
| "close_to_one _ = False"

definition has_column :: "nat \<Rightarrow> 'a list list \<Rightarrow> bool" where
  "has_column i rows = list_all (\<lambda>r. i < length r) rows"

definition broadcast_message :: string where
  "broadcast_message = ''operands could not be broadcast together''"

text \<open>
  The loop \<^verbatim>\<open>for i in range(nb_gaussians)\<close> on the remaining indices, with
  \<open>weighted_probs\<close> as accumulator. The columns \<^verbatim>\<open>mus[:, i]\<close>,
  \<^verbatim>\<open>sigmas[:, i]\<close> and \<^verbatim>\<open>weights[:, i]\<close> have one entry for each row of the
  prediction; NumPy combines them with the ground truth of the dimension when the two
  lengths agree or the prediction has a single row, which it repeats.
\<close>

primrec mixture_loop ::
  "npfloat list \<Rightarrow> npfloat list list \<Rightarrow> npfloat list list \<Rightarrow> npfloat list list \<Rightarrow>
   nat list \<Rightarrow> npfloat list \<Rightarrow> error + npfloat list" where
  "mixture_loop y_true_dim mus sigmas weights [] weighted_probs = Inr weighted_probs"
| "mixture_loop y_true_dim mus sigmas weights (i # rest) weighted_probs =
     (let rows = length mus; samples = length y_true_dim
      in if \<not> has_column i mus \<or> \<not> has_column i sigmas then Inl IndexError
         else if \<not> (rows = samples \<or> rows = 1 \<or> samples = 1) then Inl (ValueError broadcast_message)
         else if \<not> has_column i weights then Inl IndexError
         else if \<not> (rows = samples \<or> rows = 1) then Inl (ValueError broadcast_message)
         else mixture_loop y_true_dim mus sigmas weights rest
                (map (\<lambda>j. let r = (if rows = samples then j else 0)
                          in fl_add (weighted_probs ! j)
                               (fl_mul (weights ! r ! i)
                                  (normpdf (y_true_dim ! j) (mus ! r ! i) (sigmas ! r ! i))))
                   [0..<samples]))"

text \<open>
  The body of the loop \<^verbatim>\<open>for y_true_dim in y_true\<close>: it returns the new read
  position \<open>currIdx\<close> and the term \<^verbatim>\<open>np.sum(-partial_lk)\<close> that is added to
  \<open>logLK\<close>.
\<close>

definition gauss_dim ::
  "int \<Rightarrow> npfloat list list \<Rightarrow> int \<Rightarrow> npfloat list \<Rightarrow> error + (int \<times> npfloat)" where
  "gauss_dim max_gauss y_pred currIdx y_true_dim =
     (case y_pred of
        [] \<Rightarrow> Inl IndexError
      | row0 # _ \<Rightarrow>
         (case py_index row0 currIdx of
            Inl err \<Rightarrow> Inl err
          | Inr v \<Rightarrow>
             (case py_int v of
                Inl err \<Rightarrow> Inl err
              | Inr nb_gaussians \<Rightarrow>
                 if \<not> nb_gaussians \<le> max_gauss then Inl AssertionError
                 else
                   let c = currIdx + 1;
                       mus = map (py_slice c (c + nb_gaussians)) y_pred;
                       sigmas = map (py_slice (c + nb_gaussians) (c + nb_gaussians * 2)) y_pred;
                       weights = map (py_slice (c + nb_gaussians * 2) (c + nb_gaussians * 3)) y_pred
                   in if \<not> list_all (list_all (\<lambda>s. fl_ge s (Fin 0))) sigmas then Inl AssertionError
                      else if \<not> list_all (\<lambda>w. close_to_one (fl_sum w)) weights then Inl AssertionError
                      else
                        (case mixture_loop y_true_dim mus sigmas weights [0..<nat nb_gaussians]
                                (replicate (length y_true_dim) (Fin 0)) of
                           Inl err \<Rightarrow> Inl err
                         | Inr weighted_probs \<Rightarrow>
                            Inr (c + 3 * nb_gaussians,
                                 fl_sum (map (\<lambda>p. fl_neg (fl_clip_low WORST_LK (fl_log p)))
                                           weighted_probs))))))"

primrec gauss_loop ::
  "int \<Rightarrow> npfloat list list \<Rightarrow> npfloat list list \<Rightarrow> int \<Rightarrow> npfloat \<Rightarrow> error + npfloat" where
  "gauss_loop max_gauss y_pred [] currIdx logLK = Inr logLK"
| "gauss_loop max_gauss y_pred (y_true_dim # rest) currIdx logLK =
     (case gauss_dim max_gauss y_pred currIdx y_true_dim of
        Inl err \<Rightarrow> Inl err
      | Inr (currIdx', term) \<Rightarrow> gauss_loop max_gauss y_pred rest currIdx' (fl_add logLK term))"


text \<open>
  \<^verbatim>\<open>NegativeLogLikelihoodRegGaussian.__call__\<close>. With no dimension at all
  \<open>logLK\<close> is still the integer \<open>0\<close> and \<^verbatim>\<open>y_true.size\<close> is \<open>0\<close>, a
  ZeroDivisionError.
\<close>

definition NegativeLogLikelihoodRegGaussian :: "int \<Rightarrow> ytrue \<Rightarrow> npfloat list list \<Rightarrow> error + npfloat" where
  "NegativeLogLikelihoodRegGaussian max_gauss y_true y_pred =
     (let yt = normalise_y_true y_true
      in case gauss_loop max_gauss y_pred yt 0 (Fin 0) of
           Inl err \<Rightarrow> Inl err
         | Inr logLK \<Rightarrow>
            if yt = [] then Inl ZeroDivisionError
            else Inr (fl_div logLK (Fin (real (length (concat yt))))))"

text \<open>\<^verbatim>\<open>LikelihoodRatioGaussian.__call__\<close>.\<close>

definition LikelihoodRatioGaussian :: "int \<Rightarrow> ytrue \<Rightarrow> npfloat list list \<Rightarrow> error + npfloat" where
  "LikelihoodRatioGaussian max_gauss y_true y_pred =
     (case NegativeLogLikelihoodRegGaussian max_gauss y_true y_pred of
        Inl err \<Rightarrow> Inl err
      | Inr nll_reg \<Rightarrow> Inr (ratio_of nll_reg (baseline_lls (normalise_y_true y_true))))"

section \<open>Ranking predictions\<close>

text \<open>
  \<^verbatim>\<open>y_pred\<close> of a prediction instance is whatever \<^verbatim>\<open>np.array\<close> makes of the
  argument: the two shapes that occur here are a samples-by-columns matrix and the
  zero-dimensional array that \<^verbatim>\<open>np.nanmean\<close> returns on an empty stack.
\<close>

datatype ndarray = Scalar npfloat | Matrix "npfloat list list"

record prediction =
  y_pred :: ndarray

text \<open>
  \<^verbatim>\<open>make_ranking(label_names)\<close> builds the class: its attributes are
  \<^verbatim>\<open>label_names\<close> and \<^verbatim>\<open>n_columns = len(label_names)\<close>. The method
  \<^verbatim>\<open>check_y_pred_dimensions\<close> is inherited from \<^verbatim>\<open>BasePrediction\<close>, which is
  defined in another module; it is a parameter of the class here, returning the error it
  raises, if any.
\<close>

record 'l ranking_cls =
  label_names :: "'l list"
  check_y_pred_dimensions :: "ndarray \<Rightarrow> error option"

definition n_columns :: "'l ranking_cls \<Rightarrow> nat" where
  "n_columns cls = length (label_names cls)"

text \<open>An entry of the ground-truth labels: one label, or a list of positive labels.\<close>

datatype 'l label_entry = Single 'l | Multi "'l list"

fun as_label_list :: "'l label_entry \<Rightarrow> 'l list" where
  "as_label_list (Single l) = [l]"
| "as_label_list (Multi ls) = ls"

text \<open>\<^verbatim>\<open>list.index\<close>: the first position of the label, if any.\<close>

primrec index_of :: "'l list \<Rightarrow> 'l \<Rightarrow> nat option" where
  "index_of [] l = None"
| "index_of (x # xs) l = (if x = l then Some 0 else map_option Suc (index_of xs l))"

text \<open>
  The inner loop of \<^verbatim>\<open>_init_from_pred_labels\<close>:
  \<^verbatim>\<open>for label in label_list: ps_i[self.label_names.index(label)] = 1.0 / len(label_list)\<close>.
\<close>

primrec fill_row :: "'l list \<Rightarrow> real \<Rightarrow> 'l list \<Rightarrow> npfloat list \<Rightarrow> error + npfloat list" where
  "fill_row names w [] row = Inr row"
| "fill_row names w (l # ls) row =
     (case index_of names l of
        None \<Rightarrow> Inl (ValueError ''label is not in list'')
      | Some k \<Rightarrow> fill_row names w ls (row[k := Fin w]))"

primrec fill_rows :: "'l list \<Rightarrow> 'l label_entry list \<Rightarrow> error + npfloat list list" where
  "fill_rows names [] = Inr []"
| "fill_rows names (e # es) =
     (let label_list = as_label_list e in
      case fill_row names (1 / real (length label_list)) label_list
             (replicate (length names) (Fin 0)) of
        Inl err \<Rightarrow> Inl err
      | Inr row \<Rightarrow> (case fill_rows names es of Inl err \<Rightarrow> Inl err | Inr rows \<Rightarrow> Inr (row # rows)))"

text \<open>
  \<^verbatim>\<open>_init_from_pred_labels\<close>; \<^verbatim>\<open>type(self.label_names[0])\<close> raises IndexError
  on an empty vocabulary. Labels are of one type, so the conversion
  \<^verbatim>\<open>map(type_of_label, label_list)\<close> changes nothing.
\<close>

definition init_from_pred_labels :: "'l ranking_cls \<Rightarrow> 'l label_entry list \<Rightarrow> error + ndarray" where
  "init_from_pred_labels cls y_pred_labels =
     (if label_names cls = [] then Inl IndexError
      else case fill_rows (label_names cls) y_pred_labels of
             Inl err \<Rightarrow> Inl err
           | Inr rows \<Rightarrow> Inr (Matrix rows))"

text \<open>
  \<^verbatim>\<open>_ranking_init\<close>: the three optional arguments are tried in order; with none
  of them the ValueError is raised before any attribute is set. An instance exists only
  when the constructor returns, after \<^verbatim>\<open>check_y_pred_dimensions\<close>.
\<close>

definition ranking_init ::
  "'l ranking_cls \<Rightarrow> ndarray option \<Rightarrow> 'l label_entry list option \<Rightarrow> int option \<Rightarrow> error + prediction" where
  "ranking_init cls yp yt ns =
     (case (case yp of
              Some a \<Rightarrow> Inr a
            | None \<Rightarrow>
               (case yt of
                  Some labels \<Rightarrow> init_from_pred_labels cls labels
                | None \<Rightarrow>
                   (case ns of
                      Some n \<Rightarrow>
                        if n < 0 then Inl (ValueError ''negative dimensions are not allowed'')
                        else Inr (Matrix (replicate (nat n) (replicate (n_columns cls) NaN)))
                    | None \<Rightarrow>
                        Inl (ValueError ''Missing init argument: y_pred, y_true, or n_samples'')))) of
        Inl err \<Rightarrow> Inl err
      | Inr a \<Rightarrow>
         (case check_y_pred_dimensions cls a of
            Some err \<Rightarrow> Inl err
          | None \<Rightarrow> Inr \<lparr>y_pred = a\<rparr>))"

text \<open>
  \<^verbatim>\<open>scipy.stats.rankdata\<close> with its default method \<^verbatim>\<open>average\<close>: the rank of a
  value is the number of smaller values plus the mean position among its ties. With
  the default \<^verbatim>\<open>nan_policy='propagate'\<close> every rank is NaN as soon as one value is.
\<close>

definition rank_of :: "npfloat list \<Rightarrow> npfloat \<Rightarrow> real" where
  "rank_of xs x =
     real (length (filter (\<lambda>y. fl_gt x y) xs)) + (real (length (filter (\<lambda>y. y = x) xs)) + 1) / 2"

definition rankdata :: "npfloat list \<Rightarrow> npfloat list" where
  "rankdata xs = (if list_ex isnan xs then map (\<lambda>_. NaN) xs else map (\<lambda>x. Fin (rank_of xs x)) xs)"

text \<open>\<^verbatim>\<open>a[:, c]\<close>: IndexError unless the array has two axes and more than \<open>c\<close> columns.\<close>

fun column :: "nat \<Rightarrow> ndarray \<Rightarrow> error + npfloat list" where
  "column c (Scalar _) = Inl IndexError"
| "column c (Matrix rows) =
     (if list_all (\<lambda>r. c < length r) rows then Inr (map (\<lambda>r. r ! c) rows) else Inl IndexError)"

text \<open>
  One element of the list comprehension of \<^verbatim>\<open>_combine\<close>:
  \<^verbatim>\<open>np.array([rankdata(p.y_pred[:, 0]), len(p.y_pred) - rankdata(p.y_pred[:, 1])]).T\<close>.
\<close>

definition rank_transform :: "prediction \<Rightarrow> error + npfloat list list" where
  "rank_transform p =
     (case column 0 (y_pred p) of
        Inl err \<Rightarrow> Inl err
      | Inr c0 \<Rightarrow>
         (case column 1 (y_pred p) of
            Inl err \<Rightarrow> Inl err
          | Inr c1 \<Rightarrow>
             Inr (map2 (\<lambda>a b. [a, fl_sub (Fin (real (length c1))) b]) (rankdata c0) (rankdata c1))))"

text \<open>The list comprehension, element by element; the first error ends it.\<close>

primrec rank_all :: "prediction list \<Rightarrow> int list \<Rightarrow> error + npfloat list list list" where
  "rank_all predictions_list [] = Inr []"
| "rank_all predictions_list (i # rest) =
     (case py_index predictions_list i of
        Inl err \<Rightarrow> Inl err
      | Inr p \<Rightarrow>
         (case rank_transform p of
            Inl err \<Rightarrow> Inl err
          | Inr m \<Rightarrow>
             (case rank_all predictions_list rest of
                Inl err \<Rightarrow> Inl err
              | Inr ms \<Rightarrow> Inr (m # ms))))"

text \<open>\<^verbatim>\<open>np.nanmean\<close> of a flat array: the mean of the values that are not NaN, NaN if there is none.\<close>

definition nanmean :: "npfloat list \<Rightarrow> npfloat" where
  "nanmean xs =
     (let ys = filter (\<lambda>x. \<not> isnan x) xs
      in if ys = [] then NaN else fl_div (fl_sum ys) (Fin (real (length ys))))"

text \<open>
  \<^verbatim>\<open>np.nanmean(np.array(ms), axis=0)\<close> for a list of two-column matrices. The
  empty list makes an empty one-dimensional array, whose mean is the scalar NaN;
  matrices of different row counts do not stack (ValueError).
\<close>

definition nanmean_axis0 :: "npfloat list list list \<Rightarrow> error + ndarray" where
  "nanmean_axis0 ms =
     (case ms of
        [] \<Rightarrow> Inr (Scalar NaN)
      | m # _ \<Rightarrow>
         if list_all (\<lambda>m'. length m' = length m) ms
         then Inr (Matrix (map (\<lambda>k. map (\<lambda>c. nanmean (map (\<lambda>m'. m' ! k ! c) ms)) [0..<2]) [0..<length m]))
         else Inl (ValueError ''inhomogeneous shape''))"

text \<open>\<^verbatim>\<open>_combine\<close>; \<^verbatim>\<open>index_list=None\<close> stands for every index in order.\<close>

definition combine :: "'l ranking_cls \<Rightarrow> prediction list \<Rightarrow> int list option \<Rightarrow> error + prediction" where
  "combine cls predictions_list index_list =
     (let idx = (case index_list of
                   None \<Rightarrow> map int [0..<length predictions_list]
                 | Some l \<Rightarrow> l)
      in case rank_all predictions_list idx of
           Inl err \<Rightarrow> Inl err
         | Inr y_comb_list \<Rightarrow>
            (case nanmean_axis0 y_comb_list of
               Inl err \<Rightarrow> Inl err
             | Inr y_comb \<Rightarrow> ranking_init cls (Some y_comb) None None))"

section \<open>The statements of the specification\<close>

text \<open>
  Stated from the specification, not from the source: the final score of the baseline
  ratio scorers as \<open>exp (mean (baseline log-likelihoods) - wrapped_average_NLL)\<close>.
\<close>

definition spec_baseline_ratio :: "npfloat \<Rightarrow> npfloat list list \<Rightarrow> npfloat" where
  "spec_baseline_ratio wrapped_average_NLL lls =
     fl_exp (fl_sub (fl_mean (concat lls)) wrapped_average_NLL)"




section \<open>Evaluation on concrete inputs\<close>

lemmas binned_eval =
  NegativeLogLikelihoodReg_def bins_of_def prob_of_def swapaxes_def contains_nan_def
  renormalise_def unordered_def shapes_agree_def classes_matrix_def bins_sliding_def
  take_class_def preds_matrix_def selected_bins_def lk_matrix_def binned_lk_def class_of_def
  fl_eq_def fl_ge_def fl_sub_def WORST_LK_def signed_inf_def Let_def upt_rec

lemmas gauss_eval =
  NegativeLogLikelihoodRegGaussian_def gauss_dim_def py_index_def py_slice_def
  has_column_def normpdf_def fl_eq_def fl_ge_def fl_sub_def WORST_LK_def signed_inf_def
  Let_def upt_rec

lemmas rank_eval =
  combine_def rank_transform_def rankdata_def rank_of_def nanmean_axis0_def nanmean_def
  py_index_def ranking_init_def fl_sub_def signed_inf_def Let_def upt_rec

section \<open>Properties of the likelihood scorers\<close>

text \<open>
  C6: the claim gives the mixture scorer the declared range of the binned scorer, with
  minimum \<open>-\<infinity>\<close>. The class \<^verbatim>\<open>NegativeLogLikelihoodRegGaussian\<close> declares
  \<^verbatim>\<open>minimum = 0.0\<close>, whereas the binned scorer declares \<open>-\<infinity>\<close>; and the
  mixture scorer does return scores below its declared minimum: one sample at \<open>0\<close>
  under a single component of mean \<open>0\<close>, standard deviation \<open>0.1\<close> and weight \<open>1\<close>
  has a negative score.
\<close>

theorem gaussian_declared_minimum_violated:
  "minimum NegativeLogLikelihoodRegGaussian_attrs = Fin 0 \<and>
   minimum NegativeLogLikelihoodReg_attrs = NInf \<and>
   (\<exists>s. NegativeLogLikelihoodRegGaussian 1 (Y1 [Fin 0]) [[Fin 1, Fin 0, Fin (1 / 10), Fin 1]] = Inr (Fin s)
        \<and> s < 0)"
proof -
  have pos: "0 < sqrt (2 * pi / 100)" by simp
  have "2 * pi / 100 < 1" using pi_less_4 by simp
  then have "sqrt (2 * pi / 100) < 1" by (simp add: real_sqrt_lt_1_iff)
  then have "1 < 1 / sqrt (2 * pi / 100)" using pos by (simp add: field_simps)
  then have l: "0 < ln (1 / sqrt (2 * pi / 100))" using ln_gt_zero by blast
  have e: "NegativeLogLikelihoodRegGaussian 1 (Y1 [Fin 0]) [[Fin 1, Fin 0, Fin (1 / 10), Fin 1]] =
      Inr (Fin (- max (ln (1 / sqrt (2 * pi / 100))) (- 50)))"
    by (simp add: gauss_eval power2_eq_square)
  have m: "- max (ln (1 / sqrt (2 * pi / 100))) (- 50) < 0"
    using l by (simp only: less_max_iff_disj neg_less_0_iff_less) simp
  have a: "minimum NegativeLogLikelihoodRegGaussian_attrs = Fin 0"
    by (simp add: NegativeLogLikelihoodRegGaussian_attrs_def)
  have b: "minimum NegativeLogLikelihoodReg_attrs = NInf"
    by (simp add: NegativeLogLikelihoodReg_attrs_def)
  from e m have "\<exists>s. NegativeLogLikelihoodRegGaussian 1 (Y1 [Fin 0]) [[Fin 1, Fin 0, Fin (1 / 10), Fin 1]] = Inr (Fin s) \<and> s < 0"
    by blast
  with a b show ?thesis by blast
qed


text \<open>
  C5, as stated, fails: the error for unordered edges carries one fixed message, the same
  whether the offending vector is that of the first or of the second sample.
\<close>

theorem bins_error_message_counterexample:
  "NegativeLogLikelihoodReg 1 (Y1 [Fin 0, Fin 0]) [[[Fin 1, Fin 1, Fin 1]], [[Fin 0, Fin 1, Fin 1]]] =
     Inl (ValueError ''Bins must be ordered and non empty'') \<and>
   NegativeLogLikelihoodReg 1 (Y1 [Fin 0, Fin 0]) [[[Fin 0, Fin 1, Fin 1]], [[Fin 1, Fin 1, Fin 1]]] =
     Inl (ValueError ''Bins must be ordered and non empty'')"
  by (simp add: binned_eval bins_message_def)

lemma rectangular_row_length:
  assumes "rectangular xss" "s < length xss"
  shows "length (xss ! s) = length (hd xss)"
  using assms by (cases xss) (auto simp: rectangular_def list_all_length)

lemma rectangular_map_map: "rectangular xss \<Longrightarrow> rectangular (map (map f) xss)"
  by (cases xss) (auto simp: rectangular_def list_all_iff)

lemma swapaxes_nonempty:
  "xss \<noteq> [] \<Longrightarrow> swapaxes xss = map (\<lambda>j. map (\<lambda>row. row ! j) xss) [0..<length (hd xss)]"
  by (cases xss) (simp_all add: swapaxes_def)

lemma swapaxes_list_ex:
  assumes "rectangular xss" "s < length xss" "d < length (xss ! s)" "P (xss ! s ! d)"
  shows "list_ex (list_ex P) (swapaxes xss)"
proof -
  from assms(2) have ne: "xss \<noteq> []" by auto
  from assms(1,2,3) have d: "d < length (hd xss)" by (simp add: rectangular_row_length)
  have "map (\<lambda>row. row ! d) xss \<in> set (swapaxes xss)"
    using d by (auto simp: swapaxes_nonempty [OF ne])
  moreover have "xss ! s ! d \<in> set (map (\<lambda>row. row ! d) xss)"
    using assms(2) by (auto simp: image_iff intro: bexI [where x = "xss ! s"])
  ultimately show ?thesis using assms(4) unfolding list_ex_iff by blast
qed

lemma swapaxes_map_map_list_ex:
  assumes "rectangular y" "s < length y" "d < length (y ! s)" "P (f (y ! s ! d))"
  shows "list_ex (list_ex P) (swapaxes (map (map f) y))"
proof (rule swapaxes_list_ex [where s = s and d = d])
  show "rectangular (map (map f) y)" using assms(1) by (rule rectangular_map_map)
  show "s < length (map (map f) y)" using assms(2) by simp
  show "d < length (map (map f) y ! s)" using assms(2,3) by simp
  show "P (map (map f) y ! s ! d)" using assms(2,3,4) by simp
qed


text \<open>
  C5, amended: when the edges of some cell are not strictly increasing the binned scorer
  returns no score; it fails with a ValueError, whose message is the fixed text
  \<^verbatim>\<open>Bins must be ordered and non empty\<close> (or the NaN message when the slices hold a
  NaN, which is checked first). The message does not name the dimension or the sample.
\<close>

theorem unordered_bins_rejected:
  assumes "rectangular pred" and "s < length pred" and "d < length (pred ! s)"
    and "unordered (take (n_bins + 1) (pred ! s ! d))"
  shows "NegativeLogLikelihoodReg n_bins y_true pred =
           Inl (ValueError (if contains_nan (bins_of n_bins pred) \<or> contains_nan (prob_of n_bins pred)
                            then nan_message else bins_message))"
proof -
  have "list_ex (list_ex unordered) (bins_of n_bins pred)"
    unfolding bins_of_def
    using swapaxes_map_map_list_ex [OF assms(1,2,3), of unordered "take (n_bins + 1)"] assms(4) by simp
  then show ?thesis by (simp add: NegativeLogLikelihoodReg_def Let_def)
qed

theorem unordered_bins_rejected_witness:
  "NegativeLogLikelihoodReg 1 (Y1 [Fin 0, Fin 5]) [[[Fin 0, Fin 1, Fin 1]], [[Fin 3, Fin 3, Fin 1]]] =
     Inl (ValueError bins_message)"
  using unordered_bins_rejected [where s = 1 and d = 0 and n_bins = 1 and y_true = "Y1 [Fin 0, Fin 5]"
      and pred = "[[[Fin 0, Fin 1, Fin 1]], [[Fin 3, Fin 3, Fin 1]]]"]
  by (simp add: rectangular_def unordered_def fl_ge_def fl_eq_def contains_nan_def bins_of_def prob_of_def swapaxes_def upt_rec)











text \<open>
  C1, as stated, fails: the code subtracts the mean baseline log-likelihood from the
  negated score of the wrapped scorer. On two samples \<open>0\<close> and \<open>2\<close>, each with
  density \<open>1\<close> in its own bin, the wrapped score is \<open>0\<close> and the result is
  \<open>exp (1/2 + ln (sqrt (2 \<pi>)))\<close>, not \<open>exp (- 1/2 - ln (sqrt (2 \<pi>)))\<close>.
\<close>

theorem ratio_formula_counterexample:
  "NegativeLogLikelihoodReg 1 (Y1 [Fin 0, Fin 2]) [[[Fin 0, Fin 1, Fin 1]], [[Fin 2, Fin 3, Fin 1]]] = Inr (Fin 0) \<and>
   LikelihoodRatio 1 (Y1 [Fin 0, Fin 2]) [[[Fin 0, Fin 1, Fin 1]], [[Fin 2, Fin 3, Fin 1]]] \<noteq>
     Inr (spec_baseline_ratio (Fin 0) (baseline_lls (normalise_y_true (Y1 [Fin 0, Fin 2]))))"
proof -
  have n: "NegativeLogLikelihoodReg 1 (Y1 [Fin 0, Fin 2]) [[[Fin 0, Fin 1, Fin 1]], [[Fin 2, Fin 3, Fin 1]]] = Inr (Fin 0)"
    by (simp add: binned_eval)
  have b: "baseline_lls [[Fin 0, Fin 2]] =
      [[Fin (- (1/2) - ln (sqrt (2 * pi))), Fin (- (1/2) - ln (sqrt (2 * pi)))]]"
    by (simp add: baseline_lls_def norm_logpdf_def fl_mean_def fl_std_def fl_sub_def Let_def)
  have "1 < sqrt (2 * pi)" using pi_ge_two by (simp add: real_less_rsqrt)
  then have p: "0 < ln (sqrt (2 * pi))" by simp
  have l: "LikelihoodRatio 1 (Y1 [Fin 0, Fin 2]) [[[Fin 0, Fin 1, Fin 1]], [[Fin 2, Fin 3, Fin 1]]] =
      Inr (Fin (exp (1/2 + ln (sqrt (2 * pi)))))"
    by (simp only: LikelihoodRatio_def n sum.case) (simp add: b ratio_of_def fl_sub_def field_simps)
  have s: "spec_baseline_ratio (Fin 0) (baseline_lls (normalise_y_true (Y1 [Fin 0, Fin 2]))) =
      Fin (exp (- (1/2) - ln (sqrt (2 * pi))))"
    by (simp add: spec_baseline_ratio_def b fl_mean_def fl_sub_def field_simps)
  have "1/2 + ln (sqrt (2 * pi)) \<noteq> - (1/2) - ln (sqrt (2 * pi))"
    using p by linarith
  then have "exp (1/2 + ln (sqrt (2 * pi))) \<noteq> exp (- (1/2) - ln (sqrt (2 * pi)))"
    by (simp only: exp_inj_iff not_False_eq_True)
  with n l s show ?thesis by simp
qed

text \<open>
  C1, amended: both baseline ratio scorers return
  \<open>exp (- wrapped_average_NLL - mean (baseline log-likelihoods))\<close>, where the baseline
  log-likelihoods are the log-densities of the samples under the Gaussian of each
  dimension's mean and standard deviation, and fail when the wrapped scorer fails.
\<close>

theorem ratio_formula:
  "LikelihoodRatio n_bins y_true pred =
     (case NegativeLogLikelihoodReg n_bins y_true pred of
        Inl err \<Rightarrow> Inl err
      | Inr nll \<Rightarrow> Inr (fl_exp (fl_sub (fl_neg nll) (fl_mean (concat (baseline_lls (normalise_y_true y_true))))))) \<and>
   LikelihoodRatioGaussian max_gauss y_true pred' =
     (case NegativeLogLikelihoodRegGaussian max_gauss y_true pred' of
        Inl err \<Rightarrow> Inl err
      | Inr nll \<Rightarrow> Inr (fl_exp (fl_sub (fl_neg nll) (fl_mean (concat (baseline_lls (normalise_y_true y_true)))))))"
  by (simp add: LikelihoodRatio_def LikelihoodRatioGaussian_def ratio_of_def fl_mean_def split: sum.splits)


theorem ratio_formula_witness:
  "LikelihoodRatio 1 (Y1 [Fin 0, Fin 2]) [[[Fin 0, Fin 1, Fin 1]], [[Fin 2, Fin 3, Fin 1]]] =
     Inr (fl_exp (fl_sub (fl_neg (Fin 0)) (fl_mean (concat (baseline_lls [[Fin 0, Fin 2]]))))) \<and>
   LikelihoodRatioGaussian 1 (Y1 [Fin 0]) [[Fin 1, NaN, Fin 1, Fin 1]] =
     Inr (fl_exp (fl_sub (fl_neg NaN) (fl_mean (concat (baseline_lls [[Fin 0]])))))"
proof -
  have n: "NegativeLogLikelihoodReg 1 (Y1 [Fin 0, Fin 2]) [[[Fin 0, Fin 1, Fin 1]], [[Fin 2, Fin 3, Fin 1]]] = Inr (Fin 0)"
    by (simp add: binned_eval)
  have g: "NegativeLogLikelihoodRegGaussian 1 (Y1 [Fin 0]) [[Fin 1, NaN, Fin 1, Fin 1]] = Inr NaN"
    by (simp add: gauss_eval)
  show ?thesis
    using ratio_formula [of 1 "Y1 [Fin 0, Fin 2]" "[[[Fin 0, Fin 1, Fin 1]], [[Fin 2, Fin 3, Fin 1]]]"]
      ratio_formula [of _ "Y1 [Fin 0]" _ 1 "[[Fin 1, NaN, Fin 1, Fin 1]]"]
    by (simp only: n g sum.case normalise_y_true.simps)
qed

lemma fl_gt_trans: "fl_gt a b \<Longrightarrow> fl_gt b c \<Longrightarrow> fl_gt a c"
  by (cases a; cases b; cases c) auto

lemma fl_ge_not_gt: "fl_ge t b \<Longrightarrow> \<not> fl_gt b t"
  by (cases t; cases b) (auto simp: fl_ge_def fl_eq_def)

lemma fl_ge_gt_not_gt: "fl_ge t b \<Longrightarrow> fl_gt b x \<Longrightarrow> \<not> fl_gt x t"
  by (cases t; cases b; cases x) (auto simp: fl_ge_def fl_eq_def)

lemma not_ge_gt: "\<not> isnan a \<Longrightarrow> \<not> isnan b \<Longrightarrow> \<not> fl_ge a b \<Longrightarrow> fl_gt b a"
  by (cases a; cases b) (auto simp: fl_ge_def fl_eq_def)

text \<open>In an ordered vector without NaN a later edge is above every earlier one.\<close>

lemma ordered_later_greater:
  assumes "\<not> unordered e" and "\<forall>x\<in>set e. \<not> isnan x" and "k < m" and "m < length e"
  shows "fl_gt (e ! m) (e ! k)"
  using assms(3,4)
proof (induction m)
  case 0
  then show ?case by simp
next
  case (Suc m)
  have step: "fl_gt (e ! Suc m) (e ! m)"
  proof -
    have "m < length e - 1" using Suc.prems by simp
    then have "\<not> fl_ge (e ! m) (e ! Suc m)"
      using assms(1) by (auto simp: unordered_def list_ex_iff)
    moreover have "\<not> isnan (e ! m)" "\<not> isnan (e ! Suc m)"
      using assms(2) Suc.prems by simp_all
    ultimately show ?thesis by (rule_tac not_ge_gt) auto
  qed
  show ?case
  proof (cases "k = m")
    case True
    then show ?thesis using step by simp
  next
    case False
    then have "fl_gt (e ! m) (e ! k)" using Suc by simp
    with step show ?thesis by (rule fl_gt_trans)
  qed
qed

lemma class_loop_none_above:
  "es \<noteq> [] \<Longrightarrow> \<forall>x\<in>set es. \<not> fl_gt x t \<Longrightarrow> class_loop es t k = Some (- 1)"
  by (induction es arbitrary: k) auto

lemma class_of_outside:
  assumes "\<not> unordered e" and "\<forall>x\<in>set e. \<not> isnan x" and "length e = n + 1" and "1 \<le> n"
    and "fl_gt (e ! 0) t \<or> fl_ge t (e ! n)"
  shows "class_of e t = Some (- 1)"
proof -
  obtain d0 rest where e: "e = d0 # rest" using assms(3) by (cases e) auto
  have rest: "rest \<noteq> []" using assms(3,4) e by auto
  show ?thesis
  proof (cases "fl_gt (e ! 0) t")
    case True
    then show ?thesis by (simp add: class_of_def e)
  next
    case False
    with assms(5) have ge: "fl_ge t (e ! n)" by simp
    have "\<not> fl_gt x t" if "x \<in> set e" for x
    proof -
      from that obtain k where k: "k < length e" "x = e ! k" by (auto simp: in_set_conv_nth)
      show ?thesis
      proof (cases "k = n")
        case True
        then show ?thesis using ge k by (simp add: fl_ge_not_gt)
      next
        case False
        then have "k < n" using k assms(3) by simp
        then have "fl_gt (e ! n) (e ! k)"
          using ordered_later_greater [OF assms(1,2), of k n] assms(3) by simp
        then show ?thesis using ge k by (simp add: fl_ge_gt_not_gt)
      qed
    qed
    then have "\<forall>x\<in>set rest. \<not> fl_gt x t" by (simp add: e)
    then have "class_loop rest t 1 = Some (- 1)" using rest by (rule class_loop_none_above [rotated])
    then show ?thesis using False by (simp add: class_of_def e)
  qed
qed


lemma NegativeLogLikelihoodReg_Inr:
  assumes "NegativeLogLikelihoodReg n_bins y_true pred = Inr score"
  shows "\<not> contains_nan (bins_of n_bins pred)"
    and "\<not> contains_nan (prob_of n_bins pred)"
    and "\<not> list_ex (list_ex unordered) (bins_of n_bins pred)"
    and "shapes_agree n_bins (normalise_y_true y_true) (bins_of n_bins pred) (renormalise (prob_of n_bins pred))"
    and "score = fl_div (fl_sum (map fl_neg (concat (binned_lk (normalise_y_true y_true) (bins_of n_bins pred)
                    (renormalise (prob_of n_bins pred))))))
                  (Fin (real (length (concat (binned_lk (normalise_y_true y_true) (bins_of n_bins pred)
                    (renormalise (prob_of n_bins pred)))))))"
  using assms by (auto simp: NegativeLogLikelihoodReg_def Let_def split: if_splits)

lemma shapes_agree_cell:
  assumes "shapes_agree n y_true bins prob" and "i < length bins" and "j < length (bins ! i)"
  shows "i < length y_true" and "i < length prob" and "j < length (y_true ! i)" and "j < length (prob ! i)"
    and "length (bins ! i ! j) = n + 1" and "1 \<le> n"
proof -
  from assms(1,2) have row: "length (bins ! i) = length (y_true ! i)" "length (prob ! i) = length (bins ! i)"
      "list_all (\<lambda>edges. length edges = n + 1 \<and> 1 \<le> n) (bins ! i)"
    by (simp_all add: shapes_agree_def list_all_iff)
  from assms(1,2) show "i < length y_true" "i < length prob" by (simp_all add: shapes_agree_def)
  from row assms(3) show "j < length (y_true ! i)" "j < length (prob ! i)" by simp_all
  from row(3) assms(3) show "length (bins ! i ! j) = n + 1" "1 \<le> n"
    by (simp_all add: list_all_length)
qed

lemma map2_nth: "i < length xs \<Longrightarrow> i < length ys \<Longrightarrow> map2 f xs ys ! i = f (xs ! i) (ys ! i)"
  by simp

text \<open>
  C3: in a call of the binned scorer that returns a score, a cell (dimension \<open>i\<close>, sample
  \<open>j\<close>) whose ground truth is strictly below the first edge, or at or above the last
  edge, gets density \<open>0\<close>; the logarithm is \<open>-\<infinity>\<close>, floored to \<open>-50\<close>, and
  the cell's term among the negated log-likelihoods that the score averages is exactly
  \<open>50\<close>.
\<close>

theorem out_of_range_floor:
  assumes "NegativeLogLikelihoodReg n_bins y_true pred = Inr score"
    and "yt = normalise_y_true y_true" and "bins = bins_of n_bins pred"
    and "prob = renormalise (prob_of n_bins pred)" and "classes = classes_matrix yt bins"
    and "i < length bins" and "j < length (bins ! i)"
    and "fl_gt (bins ! i ! j ! 0) (yt ! i ! j) \<or> fl_ge (yt ! i ! j) (bins ! i ! j ! n_bins)"
  shows "fl_div (preds_matrix classes prob ! i ! j) (selected_bins classes (bins_sliding bins) ! i ! j) = Fin 0 \<and>
         fl_log (fl_div (preds_matrix classes prob ! i ! j) (selected_bins classes (bins_sliding bins) ! i ! j)) = NInf \<and>
         binned_lk yt bins prob ! i ! j = Fin (- 50) \<and>
         fl_neg (binned_lk yt bins prob ! i ! j) = Fin 50 \<and>
         score = fl_div (fl_sum (map fl_neg (concat (binned_lk yt bins prob))))
                        (Fin (real (length (concat (binned_lk yt bins prob)))))"
proof -
  note r = NegativeLogLikelihoodReg_Inr [OF assms(1), folded assms(2,3,4)]
  note c = shapes_agree_cell [OF r(4) assms(6,7)]
  let ?e = "bins ! i ! j"
  have mem: "?e \<in> set (bins ! i)" "bins ! i \<in> set bins" using assms(6,7) by simp_all
  have ord: "\<not> unordered ?e" using r(3) mem by (auto simp: list_ex_iff)
  have nan: "\<forall>x\<in>set ?e. \<not> isnan x" using r(1) mem by (auto simp: contains_nan_def list_ex_iff)
  have cls: "class_of ?e (yt ! i ! j) = Some (- 1)"
    using ord nan c(5,6) assms(8) by (rule class_of_outside)
  have cm: "classes ! i ! j = Some (- 1)"
    using cls c(1,3) assms(6,7) by (simp add: assms(5) classes_matrix_def)
  have li: "i < length classes" "j < length (classes ! i)"
    using c(1,3) assms(6,7) by (simp_all add: assms(5) classes_matrix_def)
  have p: "preds_matrix classes prob ! i ! j = Fin 0"
    using cm li c(2,4) by (simp add: preds_matrix_def take_class_def)
  have sl: "i < length (bins_sliding bins)" "j < length (bins_sliding bins ! i)"
    using assms(6,7) by (simp_all add: bins_sliding_def)
  have b: "selected_bins classes (bins_sliding bins) ! i ! j = Fin (- 1)"
    using cm li sl by (simp add: selected_bins_def take_class_def)
  have lp: "i < length (preds_matrix classes prob)" "j < length (preds_matrix classes prob ! i)"
    using li c(2,4) by (simp_all add: preds_matrix_def)
  have ls: "i < length (selected_bins classes (bins_sliding bins))"
      "j < length (selected_bins classes (bins_sliding bins) ! i)"
    using li sl by (simp_all add: selected_bins_def)
  have lk: "binned_lk yt bins prob ! i ! j = Fin (- 50)"
    using lp ls p b by (simp add: binned_lk_def Let_def assms(5) [symmetric] lk_matrix_def WORST_LK_def)
  show ?thesis using p b lk r(5) by simp
qed

theorem out_of_range_floor_witness:
  "NegativeLogLikelihoodReg 1 (Y1 [Fin 0, Fin 5]) [[[Fin 0, Fin 1, Fin 1]], [[Fin 2, Fin 3, Fin 1]]] = Inr (Fin 25) \<and>
   fl_ge ([[Fin 0, Fin 5]] ! 0 ! 1) (bins_of 1 [[[Fin 0, Fin 1, Fin 1]], [[Fin 2, Fin 3, Fin 1]]] ! 0 ! 1 ! 1) \<and>
   binned_lk [[Fin 0, Fin 5]] (bins_of 1 [[[Fin 0, Fin 1, Fin 1]], [[Fin 2, Fin 3, Fin 1]]])
      (renormalise (prob_of 1 [[[Fin 0, Fin 1, Fin 1]], [[Fin 2, Fin 3, Fin 1]]])) ! 0 ! 1 = Fin (- 50)"
proof -
  have s: "NegativeLogLikelihoodReg 1 (Y1 [Fin 0, Fin 5]) [[[Fin 0, Fin 1, Fin 1]], [[Fin 2, Fin 3, Fin 1]]] = Inr (Fin 25)"
    by (simp add: binned_eval)
  have b: "bins_of 1 [[[Fin 0, Fin 1, Fin 1]], [[Fin 2, Fin 3, Fin 1]]] = [[[Fin 0, Fin 1], [Fin 2, Fin 3]]]"
    by (simp add: bins_of_def swapaxes_def upt_rec)
  have g: "fl_ge ([[Fin 0, Fin 5]] ! 0 ! 1) (bins_of 1 [[[Fin 0, Fin 1, Fin 1]], [[Fin 2, Fin 3, Fin 1]]] ! 0 ! 1 ! 1)"
    by (simp only: b) (simp add: fl_ge_def)
  have i: "0 < length (bins_of 1 [[[Fin 0, Fin 1, Fin 1]], [[Fin 2, Fin 3, Fin 1]]])"
    and j: "1 < length (bins_of 1 [[[Fin 0, Fin 1, Fin 1]], [[Fin 2, Fin 3, Fin 1]]] ! 0)"
    by (simp_all only: b) simp_all
  from out_of_range_floor [OF s refl refl refl refl i j] g s
  show ?thesis by simp
qed












































section \<open>Properties of the ranking predictions\<close>

text \<open>
  C10: constructing a ranking prediction with none of \<^verbatim>\<open>y_pred\<close>, \<^verbatim>\<open>y_true\<close>
  and \<^verbatim>\<open>n_samples\<close> raises the ValueError that names the three missing arguments; the
  result is the error, so no instance (and no \<^verbatim>\<open>y_pred\<close> attribute) is produced.
\<close>

theorem ranking_init_missing_arguments:
  "ranking_init cls None None None =
     Inl (ValueError ''Missing init argument: y_pred, y_true, or n_samples'')"
  by (simp add: ranking_init_def)

theorem ranking_init_missing_arguments_witness:
  "ranking_init \<lparr>label_names = [''a'', ''b''], check_y_pred_dimensions = (\<lambda>a. None)\<rparr> None None None =
     Inl (ValueError ''Missing init argument: y_pred, y_true, or n_samples'')"
  by (rule ranking_init_missing_arguments)

lemma nanmean_single: "nanmean [x] = x"
  by (cases x) (simp_all add: nanmean_def)

lemma rank_transform_error: "rank_transform p = Inl e \<Longrightarrow> e = IndexError"
  by (cases "y_pred p")
     (auto simp: rank_transform_def split: sum.splits if_splits)

lemma rank_transform_rows:
  assumes "rank_transform p = Inr m" and "row \<in> set m"
  shows "length row = 2"
proof -
  from assms(1) obtain c0 c1 where
    m: "m = map2 (\<lambda>a b. [a, fl_sub (Fin (real (length c1))) b]) (rankdata c0) (rankdata c1)"
    by (auto simp: rank_transform_def split: sum.splits)
  from assms(2) show ?thesis unfolding m by (auto simp: set_zip)
qed

lemma nanmean_axis0_single:
  assumes "\<forall>row\<in>set m. length row = 2"
  shows "nanmean_axis0 [m] = Inr (Matrix m)"
proof -
  have "map (\<lambda>c. nanmean [m ! k ! c]) [0..<2] = m ! k" if "k < length m" for k
  proof -
    from that assms have "length (m ! k) = 2" by simp
    then obtain a b where "m ! k = [a, b]"
      by (cases "m ! k"; cases "tl (m ! k)") auto
    then show ?thesis by (simp add: nanmean_single upt_rec)
  qed
  then have "map (\<lambda>k. map (\<lambda>c. nanmean [m ! k ! c]) [0..<2]) [0..<length m] = map (\<lambda>k. m ! k) [0..<length m]"
    by (intro map_cong refl) simp
  then show ?thesis by (simp add: nanmean_axis0_def map_nth)
qed

text \<open>The list comprehension over every index is the list of the rank transforms.\<close>

lemma rank_all_indices:
  assumes "\<forall>i\<in>set idx. i < length ps"
  shows "rank_all ps (map int idx) =
           (if \<forall>i\<in>set idx. \<exists>m. rank_transform (ps ! i) = Inr m
            then Inr (map (\<lambda>i. projr (rank_transform (ps ! i))) idx)
            else Inl IndexError)"
  using assms
proof (induction idx)
  case Nil
  then show ?case by simp
next
  case (Cons i idx)
  then have i: "py_index ps (int i) = Inr (ps ! i)" by (simp add: py_index_def)
  show ?case
  proof (cases "rank_transform (ps ! i)")
    case (Inl e)
    then have "e = IndexError" by (rule rank_transform_error)
    with Inl i show ?thesis by auto
  next
    case (Inr m)
    with i Cons show ?thesis by auto
  qed
qed

lemma rank_all_every:
  "rank_all ps (map int [0..<length ps]) =
     (if \<forall>p\<in>set ps. \<exists>m. rank_transform p = Inr m
      then Inr (map (\<lambda>p. projr (rank_transform p)) ps)
      else Inl IndexError)"
proof -
  have "(\<forall>i\<in>set [0..<length ps]. \<exists>m. rank_transform (ps ! i) = Inr m) \<longleftrightarrow>
        (\<forall>p\<in>set ps. \<exists>m. rank_transform p = Inr m)"
    by (auto simp: all_set_conv_all_nth)
  moreover have "map (\<lambda>i. projr (rank_transform (ps ! i))) [0..<length ps] = map (\<lambda>p. projr (rank_transform p)) ps"
    by (rule nth_equalityI) simp_all
  ultimately show ?thesis using rank_all_indices [of "[0..<length ps]" ps] by simp
qed

lemma combine_every:
  "combine cls ps None =
     (if \<forall>p\<in>set ps. \<exists>m. rank_transform p = Inr m
      then (case nanmean_axis0 (map (\<lambda>p. projr (rank_transform p)) ps) of
              Inl e \<Rightarrow> Inl e
            | Inr y \<Rightarrow> ranking_init cls (Some y) None None)
      else Inl IndexError)"
proof (cases "\<forall>p\<in>set ps. \<exists>m. rank_transform p = Inr m")
  case True
  then show ?thesis by (simp add: combine_def rank_all_every)
next
  case False
  then show ?thesis by (auto simp: combine_def rank_all_every)
qed

lemma fl_add_left_commute: "fl_add x (fl_add y z) = fl_add y (fl_add x z)"
  by (cases x; cases y; cases z) simp_all

lemma fl_sum_fold: "fl_sum xs = fold fl_add xs (Fin 0)"
proof -
  have "fl_sum xs = foldr fl_add xs (Fin 0)" by (induction xs) simp_all
  also have "foldr fl_add xs = fold fl_add xs"
    by (rule foldr_fold) (rule ext, simp only: comp_apply, rule fl_add_left_commute)
  finally show ?thesis .
qed

lemma fl_sum_mset: "mset xs = mset ys \<Longrightarrow> fl_sum xs = fl_sum ys"
  unfolding fl_sum_fold
proof (rule arg_cong [where f = "\<lambda>f. f (Fin 0)"], rule fold_multiset_equiv)
  show "fl_add x \<circ> fl_add y = fl_add y \<circ> fl_add x" for x y
    by (rule ext, simp only: comp_apply, rule fl_add_left_commute)
qed

lemma nanmean_mset:
  assumes "mset xs = mset ys"
  shows "nanmean xs = nanmean ys"
proof -
  let ?P = "\<lambda>x. \<not> isnan x"
  have m: "mset (filter ?P xs) = mset (filter ?P ys)" using assms by simp
  then have s: "fl_sum (filter ?P xs) = fl_sum (filter ?P ys)" by (rule fl_sum_mset)
  from m have l: "length (filter ?P xs) = length (filter ?P ys)" by (rule mset_eq_length)
  then have e: "filter ?P xs = [] \<longleftrightarrow> filter ?P ys = []" by (metis length_0_conv)
  show ?thesis by (simp add: nanmean_def Let_def s l e)
qed

lemma nanmean_axis0_nonempty:
  "ms \<noteq> [] \<Longrightarrow> nanmean_axis0 ms =
     (if list_all (\<lambda>m'. length m' = length (hd ms)) ms
      then Inr (Matrix (map (\<lambda>k. map (\<lambda>c. nanmean (map (\<lambda>m'. m' ! k ! c) ms)) [0..<2]) [0..<length (hd ms)]))
      else Inl (ValueError ''inhomogeneous shape''))"
  by (cases ms) (simp_all add: nanmean_axis0_def)

lemma nanmean_axis0_mset:
  assumes "mset ms = mset ns"
  shows "nanmean_axis0 ms = nanmean_axis0 ns"
proof (cases "ms = []")
  case True
  with assms have "ns = []" by simp
  with True show ?thesis by simp
next
  case False
  have set: "set ms = set ns" using assms by (rule mset_eq_setD)
  have ne: "ns \<noteq> []" using set False by (metis set_empty)
  have hd: "hd ms \<in> set ns" "hd ns \<in> set ms"
    using set False ne hd_in_set by metis+
  have cells: "nanmean (map (\<lambda>m'. m' ! k ! c) ms) = nanmean (map (\<lambda>m'. m' ! k ! c) ns)" for k c
    by (rule nanmean_mset) (simp only: mset_map assms)
  show ?thesis
  proof (cases "list_all (\<lambda>m'. length m' = length (hd ms)) ms")
    case True
    then have all: "\<forall>a\<in>set ms. length a = length (hd ms)" by (simp add: list_all_iff)
    then have len: "length (hd ns) = length (hd ms)" using hd by simp
    have hom: "list_all (\<lambda>m'. length m' = length (hd ms)) ns"
      using all set by (simp add: list_all_iff)
    show ?thesis
      by (simp only: nanmean_axis0_nonempty [OF False] nanmean_axis0_nonempty [OF ne]
            True hom if_True cells len)
  next
    case nh: False
    then obtain a where a: "a \<in> set ms" "length a \<noteq> length (hd ms)" by (auto simp: list_all_iff)
    have "\<not> list_all (\<lambda>m'. length m' = length (hd ns)) ns"
    proof
      assume "list_all (\<lambda>m'. length m' = length (hd ns)) ns"
      then have b: "\<forall>b\<in>set ns. length b = length (hd ns)" by (simp add: list_all_iff)
      from a(1) set b have "length a = length (hd ns)" by blast
      moreover from hd(1) b have "length (hd ms) = length (hd ns)" by blast
      ultimately show False using a(2) by simp
    qed
    with nh show ?thesis
      by (simp only: nanmean_axis0_nonempty [OF False] nanmean_axis0_nonempty [OF ne] if_False)
  qed
qed

lemma combine_mset:
  assumes "mset ps = mset qs"
  shows "combine cls ps None = combine cls qs None"
proof -
  have a: "set ps = set qs" using assms by (rule mset_eq_setD)
  have "mset (map (\<lambda>p. projr (rank_transform p)) ps) = mset (map (\<lambda>p. projr (rank_transform p)) qs)"
    using assms by simp
  then have b: "nanmean_axis0 (map (\<lambda>p. projr (rank_transform p)) ps) =
             nanmean_axis0 (map (\<lambda>p. projr (rank_transform p)) qs)"
    by (rule nanmean_axis0_mset)
  show ?thesis by (simp only: combine_every a b)
qed


text \<open>
  C8: \<open>combine\<close> on the list of a single prediction returns that prediction's rank
  transform, column \<open>0\<close> replaced by its ranks and column \<open>1\<close> by the number of samples
  minus its ranks (provided the constructor's dimension check accepts the array); and on
  every list the result of \<open>combine\<close> is the same for every order of the list.
\<close>

theorem combine_identity_and_order:
  assumes "column 0 (y_pred p) = Inr c0" and "column 1 (y_pred p) = Inr c1"
    and "check_y_pred_dimensions cls
           (Matrix (map2 (\<lambda>a b. [a, fl_sub (Fin (real (length c1))) b]) (rankdata c0) (rankdata c1))) = None"
  shows "combine cls [p] None =
           Inr \<lparr>y_pred = Matrix (map2 (\<lambda>a b. [a, fl_sub (Fin (real (length c1))) b])
                                     (rankdata c0) (rankdata c1))\<rparr> \<and>
         (mset ps = mset qs \<longrightarrow> combine cls ps None = combine cls qs None)"
proof
  let ?m = "map2 (\<lambda>a b. [a, fl_sub (Fin (real (length c1))) b]) (rankdata c0) (rankdata c1)"
  have rt: "rank_transform p = Inr ?m" using assms(1,2) by (simp add: rank_transform_def)
  then have "\<forall>row\<in>set ?m. length row = 2" using rank_transform_rows by blast
  then have "nanmean_axis0 [?m] = Inr (Matrix ?m)" by (rule nanmean_axis0_single)
  then show "combine cls [p] None = Inr \<lparr>y_pred = Matrix ?m\<rparr>"
    using rt assms(3) by (simp add: combine_every ranking_init_def)
  show "mset ps = mset qs \<longrightarrow> combine cls ps None = combine cls qs None"
    using combine_mset by blast
qed

theorem combine_identity_and_order_witness:
  "combine \<lparr>label_names = [''a'', ''b''], check_y_pred_dimensions = (\<lambda>a. None)\<rparr>
      [\<lparr>y_pred = Matrix [[Fin 0, Fin 0], [Fin 0, Fin 1]]\<rparr>] None =
     Inr \<lparr>y_pred = Matrix [[Fin (3/2), Fin 1], [Fin (3/2), Fin 0]]\<rparr> \<and>
   combine \<lparr>label_names = [''a'', ''b''], check_y_pred_dimensions = (\<lambda>a. None)\<rparr>
      [\<lparr>y_pred = Matrix [[Fin 0, Fin 0], [Fin 0, Fin 1]]\<rparr>, \<lparr>y_pred = Matrix [[Fin 5, NaN], [Fin 7, Fin 1]]\<rparr>] None =
   combine \<lparr>label_names = [''a'', ''b''], check_y_pred_dimensions = (\<lambda>a. None)\<rparr>
      [\<lparr>y_pred = Matrix [[Fin 5, NaN], [Fin 7, Fin 1]]\<rparr>, \<lparr>y_pred = Matrix [[Fin 0, Fin 0], [Fin 0, Fin 1]]\<rparr>] None"
proof -
  let ?cls = "\<lparr>label_names = [''a'', ''b''], check_y_pred_dimensions = (\<lambda>a. None)\<rparr>"
  let ?p = "\<lparr>y_pred = Matrix [[Fin 0, Fin 0], [Fin 0, Fin 1]]\<rparr>"
  let ?q = "\<lparr>y_pred = Matrix [[Fin 5, NaN], [Fin 7, Fin 1]]\<rparr>"
  have c0: "column 0 (y_pred ?p) = Inr [Fin 0, Fin 0]" and c1: "column 1 (y_pred ?p) = Inr [Fin 0, Fin 1]"
    by simp_all
  have ck: "check_y_pred_dimensions ?cls
      (Matrix (map2 (\<lambda>a b. [a, fl_sub (Fin (real (length [Fin 0, Fin 1 :: npfloat]))) b])
         (rankdata [Fin 0, Fin 0]) (rankdata [Fin 0, Fin 1]))) = None"
    by simp
  have rk: "map2 (\<lambda>a b. [a, fl_sub (Fin (real (length [Fin 0, Fin 1 :: npfloat]))) b])
         (rankdata [Fin 0, Fin 0]) (rankdata [Fin 0, Fin 1]) = [[Fin (3/2), Fin 1], [Fin (3/2), Fin 0]]"
    by (simp add: rankdata_def rank_of_def fl_sub_def)
  have ms: "mset [?p, ?q] = mset [?q, ?p]" by (simp add: add.commute)
  from combine_identity_and_order [OF c0 c1 ck, of "[?p, ?q]" "[?q, ?p]"] rk ms
  show ?thesis by simp
qed


lemma fl_gt_irrefl: "\<not> fl_gt x x"
  by (cases x) simp_all

lemma fl_gt_asym: "fl_gt x y \<Longrightarrow> \<not> fl_gt y x"
  by (cases x; cases y) simp_all

lemma fl_trichotomy: "\<not> isnan x \<Longrightarrow> \<not> isnan y \<Longrightarrow> fl_gt x y \<or> x = y \<or> fl_gt y x"
  by (cases x; cases y) auto

lemma count_below_mono:
  "fl_gt x y \<Longrightarrow>
     length (filter (\<lambda>z. fl_gt y z) xs) + length (filter (\<lambda>z. z = y) xs) \<le> length (filter (\<lambda>z. fl_gt x z) xs)"
proof (induction xs)
  case Nil
  then show ?case by simp
next
  case (Cons z xs)
  have a: "fl_gt y z \<Longrightarrow> fl_gt x z" using Cons.prems fl_gt_trans by blast
  have b: "fl_gt y z \<Longrightarrow> z \<noteq> y" using fl_gt_irrefl by blast
  have c: "z = y \<Longrightarrow> fl_gt x z" using Cons.prems by simp
  show ?case using Cons.IH [OF Cons.prems] a b c by auto
qed

lemma count_eq_pos: "x \<in> set xs \<Longrightarrow> 1 \<le> length (filter (\<lambda>z. z = x) xs)"
  by (induction xs) auto

lemma rank_of_mono:
  assumes "fl_gt x y" and "x \<in> set xs"
  shows "rank_of xs y < rank_of xs x"
proof -
  let ?lt = "\<lambda>v. length (filter (\<lambda>z. fl_gt v z) xs)"
  let ?eq = "\<lambda>v. length (filter (\<lambda>z. z = v) xs)"
  define a where "a = real (?lt y)"
  define b where "b = real (?eq y)"
  define c where "c = real (?lt x)"
  define d where "d = real (?eq x)"
  have "?lt y + ?eq y \<le> ?lt x" using count_below_mono [OF assms(1), of xs] .
  then have "real (?lt y + ?eq y) \<le> real (?lt x)" by (rule iffD2 [OF of_nat_le_iff])
  then have 1: "a + b \<le> c" by (simp add: a_def b_def c_def)
  have "1 \<le> ?eq x" using count_eq_pos [OF assms(2)] .
  then have "real 1 \<le> real (?eq x)" by (rule iffD2 [OF of_nat_le_iff])
  then have 2: "1 \<le> d" by (simp add: d_def)
  have 3: "0 \<le> b" by (simp add: b_def)
  have "a + (b + 1) / 2 < c + (d + 1) / 2" using 1 2 3 by argo
  then show ?thesis by (simp only: rank_of_def a_def b_def c_def d_def)
qed

lemma rank_of_less_iff:
  assumes "\<not> list_ex isnan xs" and "x \<in> set xs" and "y \<in> set xs"
  shows "rank_of xs y < rank_of xs x \<longleftrightarrow> fl_gt x y"
proof
  assume "fl_gt x y"
  then show "rank_of xs y < rank_of xs x" using assms(2) by (rule rank_of_mono)
next
  assume l: "rank_of xs y < rank_of xs x"
  have "\<not> isnan x" "\<not> isnan y" using assms by (auto simp: list_ex_iff)
  then consider "fl_gt x y" | "x = y" | "fl_gt y x" using fl_trichotomy by blast
  then show "fl_gt x y"
  proof cases
    case 1
    then show ?thesis .
  next
    case 2
    with l show ?thesis by simp
  next
    case 3
    then have "rank_of xs x < rank_of xs y" using assms(3) by (rule rank_of_mono)
    with l show ?thesis by simp
  qed
qed

lemma rank_of_eq_iff:
  assumes "\<not> list_ex isnan xs" and "x \<in> set xs" and "y \<in> set xs"
  shows "rank_of xs y = rank_of xs x \<longleftrightarrow> y = x"
proof
  assume "y = x"
  then show "rank_of xs y = rank_of xs x" by simp
next
  assume e: "rank_of xs y = rank_of xs x"
  have "\<not> isnan x" "\<not> isnan y" using assms by (auto simp: list_ex_iff)
  then consider "fl_gt x y" | "x = y" | "fl_gt y x" using fl_trichotomy by blast
  then show "y = x"
  proof cases
    case 1
    then have "rank_of xs y < rank_of xs x" using assms(2) by (rule rank_of_mono)
    with e show ?thesis by simp
  next
    case 2
    then show ?thesis by simp
  next
    case 3
    then have "rank_of xs x < rank_of xs y" using assms(3) by (rule rank_of_mono)
    with e show ?thesis by simp
  qed
qed

lemma length_filter_map: "length (filter P (map f xs)) = length (filter (\<lambda>x. P (f x)) xs)"
  by (induction xs) simp_all

lemma length_filter_cong:
  "(\<And>x. x \<in> set xs \<Longrightarrow> P x = Q x) \<Longrightarrow> length (filter P xs) = length (filter Q xs)"
  by (induction xs) simp_all

lemma rank_of_cong:
  "length (filter (\<lambda>z. fl_gt v z) ys) = length (filter (\<lambda>z. fl_gt x z) xs) \<Longrightarrow>
   length (filter (\<lambda>z. z = v) ys) = length (filter (\<lambda>z. z = x) xs) \<Longrightarrow>
   rank_of ys v = rank_of xs x"
  by (simp add: rank_of_def)

lemma rankdata_nan: "list_ex isnan xs \<Longrightarrow> rankdata xs = map (\<lambda>_. NaN) xs"
  by (simp add: rankdata_def)

lemma rankdata_finite: "\<not> list_ex isnan xs \<Longrightarrow> rankdata xs = map (\<lambda>x. Fin (rank_of xs x)) xs"
  by (simp add: rankdata_def)

lemma rankdata_idempotent: "rankdata (rankdata xs) = rankdata xs"
proof (cases "list_ex isnan xs")
  case True
  then have r: "rankdata xs = map (\<lambda>_. NaN) xs" by (rule rankdata_nan)
  from True have "xs \<noteq> []" by auto
  then have "list_ex isnan (map (\<lambda>_. NaN) xs)" by (cases xs) simp_all
  then have "rankdata (map (\<lambda>_. NaN) xs) = map (\<lambda>_. NaN) (map (\<lambda>_. NaN) xs)"
    by (rule rankdata_nan)
  then show ?thesis by (simp only: r map_map comp_def)
next
  case False
  let ?rs = "map (\<lambda>x. Fin (rank_of xs x)) xs"
  have r: "rankdata xs = ?rs" using False by (rule rankdata_finite)
  have nn: "\<not> list_ex isnan ?rs" by (simp add: list_ex_iff)
  have "rank_of ?rs (Fin (rank_of xs x)) = rank_of xs x" if "x \<in> set xs" for x
  proof (rule rank_of_cong)
    show "length (filter (\<lambda>z. fl_gt (Fin (rank_of xs x)) z) ?rs) = length (filter (\<lambda>z. fl_gt x z) xs)"
      unfolding length_filter_map
      by (rule length_filter_cong) (simp add: rank_of_less_iff [OF False that])
    show "length (filter (\<lambda>z. z = Fin (rank_of xs x)) ?rs) = length (filter (\<lambda>z. z = x) xs)"
      unfolding length_filter_map
      by (rule length_filter_cong) (simp add: rank_of_eq_iff [OF False that])
  qed
  then have "map (\<lambda>r. Fin (rank_of ?rs r)) ?rs = ?rs"
    by (simp cong: map_cong)
  moreover have "rankdata ?rs = map (\<lambda>r. Fin (rank_of ?rs r)) ?rs"
    using nn by (rule rankdata_finite)
  ultimately show ?thesis by (simp only: r)
qed


lemma length_rankdata: "length (rankdata xs) = length xs"
  by (simp add: rankdata_def)

lemma column_Matrix_length: "column c (Matrix rows) = Inr col \<Longrightarrow> length col = length rows"
  by (auto split: if_splits)

lemma columns_of_pairs:
  assumes "length a = length b"
  shows "column 0 (Matrix (map2 (\<lambda>x y. [x, f y]) a b)) = Inr a"
    and "column 1 (Matrix (map2 (\<lambda>x y. [x, f y]) a b)) = Inr (map f b)"
proof -
  have all: "list_all (\<lambda>r. 1 < length r) (map2 (\<lambda>x y. [x, f y]) a b)"
    by (auto simp: list_all_iff set_zip)
  then have all0: "list_all (\<lambda>r. 0 < length r) (map2 (\<lambda>x y. [x, f y]) a b)"
    by (auto simp: list_all_iff)
  have "map (\<lambda>r. r ! 0) (map2 (\<lambda>x y. [x, f y]) a b) = a"
    using assms by (intro nth_equalityI) simp_all
  then show "column 0 (Matrix (map2 (\<lambda>x y. [x, f y]) a b)) = Inr a"
    using all0 by simp
  have "map (\<lambda>r. r ! 1) (map2 (\<lambda>x y. [x, f y]) a b) = map f b"
    using assms by (intro nth_equalityI) simp_all
  then show "column 1 (Matrix (map2 (\<lambda>x y. [x, f y]) a b)) = Inr (map f b)"
    using all by simp
qed

lemma combine_single_Inr:
  assumes "combine cls [p] None = Inr q"
  shows "\<exists>c0 c1. column 0 (y_pred p) = Inr c0 \<and> column 1 (y_pred p) = Inr c1 \<and> length c0 = length c1 \<and>
           y_pred q = Matrix (map2 (\<lambda>a b. [a, fl_sub (Fin (real (length c1))) b]) (rankdata c0) (rankdata c1))"
proof -
  from assms obtain m where m: "rank_transform p = Inr m"
    by (cases "rank_transform p") (auto simp: combine_every)
  then obtain c0 c1 where c: "column 0 (y_pred p) = Inr c0" "column 1 (y_pred p) = Inr c1"
    and md: "m = map2 (\<lambda>a b. [a, fl_sub (Fin (real (length c1))) b]) (rankdata c0) (rankdata c1)"
    by (auto simp: rank_transform_def split: sum.splits)
  have len: "length c0 = length c1"
  proof (cases "y_pred p")
    case (Scalar v)
    with c(1) show ?thesis by simp
  next
    case (Matrix rows)
    with c show ?thesis using column_Matrix_length by metis
  qed
  have "\<forall>row\<in>set m. length row = 2" using m rank_transform_rows by blast
  then have "nanmean_axis0 [m] = Inr (Matrix m)" by (rule nanmean_axis0_single)
  with assms m have "ranking_init cls (Some (Matrix m)) None None = Inr q"
    by (simp add: combine_every)
  then have "y_pred q = Matrix m"
    by (auto simp: ranking_init_def split: option.splits)
  with c len md show ?thesis by blast
qed

text \<open>
  C9, amended: when \<open>combine\<close> is applied to the single prediction that \<open>combine\<close>
  returned for a single prediction, column \<open>0\<close> of the result is column \<open>0\<close> of its
  input (ranking a column of ranks changes nothing). Column \<open>1\<close> is rank-reversed once
  more: it is the number of rows minus the ranks of column \<open>1\<close> of the input, in general
  not the same.
\<close>

theorem combine_twice_column0:
  assumes "combine cls [p] None = Inr q" and "combine cls [q] None = Inr q'"
  shows "column 0 (y_pred q') = column 0 (y_pred q) \<and>
         (\<exists>d1. column 1 (y_pred q) = Inr d1 \<and>
               column 1 (y_pred q') = Inr (map (\<lambda>b. fl_sub (Fin (real (length d1))) b) (rankdata d1)))"
proof -
  from combine_single_Inr [OF assms(1)] obtain c0 c1 where
    len: "length c0 = length c1" and
    q: "y_pred q = Matrix (map2 (\<lambda>a b. [a, fl_sub (Fin (real (length c1))) b]) (rankdata c0) (rankdata c1))"
    by blast
  have lr: "length (rankdata c0) = length (rankdata c1)" using len by (simp add: length_rankdata)
  note cq = columns_of_pairs [OF lr, of "\<lambda>b. fl_sub (Fin (real (length c1))) b", folded q]
  from combine_single_Inr [OF assms(2)] obtain d0 d1 where
    d: "column 0 (y_pred q) = Inr d0" "column 1 (y_pred q) = Inr d1" "length d0 = length d1" and
    q': "y_pred q' = Matrix (map2 (\<lambda>a b. [a, fl_sub (Fin (real (length d1))) b]) (rankdata d0) (rankdata d1))"
    by blast
  have d0: "d0 = rankdata c0" using d(1) cq(1) by simp
  have lr': "length (rankdata d0) = length (rankdata d1)" using d(3) by (simp add: length_rankdata)
  have "column 0 (y_pred q') = Inr (rankdata d0)"
    unfolding q' using lr' by (rule columns_of_pairs(1))
  then have 0: "column 0 (y_pred q') = column 0 (y_pred q)"
    by (simp add: d0 rankdata_idempotent cq(1))
  have 1: "column 1 (y_pred q') = Inr (map (\<lambda>b. fl_sub (Fin (real (length d1))) b) (rankdata d1))"
    unfolding q' using lr' by (rule columns_of_pairs(2))
  from 0 1 d(2) show ?thesis by blast
qed

text \<open>
  C9, as stated, fails: \<open>combine\<close> reverses the ranks of column \<open>1\<close> every time. For
  the two rows \<open>(0, 0)\<close> and \<open>(0, 1)\<close> the first call gives the rows
  \<open>(1.5, 1)\<close> and \<open>(1.5, 0)\<close>, and the call on that result the rows \<open>(1.5, 0)\<close>
  and \<open>(1.5, 1)\<close>.
\<close>

theorem combine_not_idempotent_counterexample:
  "combine \<lparr>label_names = [''a'', ''b''], check_y_pred_dimensions = (\<lambda>a. None)\<rparr>
      [\<lparr>y_pred = Matrix [[Fin 0, Fin 0], [Fin 0, Fin 1]]\<rparr>] None =
     Inr \<lparr>y_pred = Matrix [[Fin (3/2), Fin 1], [Fin (3/2), Fin 0]]\<rparr> \<and>
   combine \<lparr>label_names = [''a'', ''b''], check_y_pred_dimensions = (\<lambda>a. None)\<rparr>
      [\<lparr>y_pred = Matrix [[Fin (3/2), Fin 1], [Fin (3/2), Fin 0]]\<rparr>] None =
     Inr \<lparr>y_pred = Matrix [[Fin (3/2), Fin 0], [Fin (3/2), Fin 1]]\<rparr> \<and>
   Matrix [[Fin (3/2), Fin 0], [Fin (3/2), Fin 1]] \<noteq> Matrix [[Fin (3/2), Fin 1], [Fin (3/2), Fin 0]]"
  by (simp add: rank_eval)

theorem combine_twice_column0_witness:
  "combine \<lparr>label_names = [''a'', ''b''], check_y_pred_dimensions = (\<lambda>a. None)\<rparr>
      [\<lparr>y_pred = Matrix [[Fin 0, Fin 0], [Fin 0, Fin 1]]\<rparr>] None =
     Inr \<lparr>y_pred = Matrix [[Fin (3/2), Fin 1], [Fin (3/2), Fin 0]]\<rparr> \<and>
   combine \<lparr>label_names = [''a'', ''b''], check_y_pred_dimensions = (\<lambda>a. None)\<rparr>
      [\<lparr>y_pred = Matrix [[Fin (3/2), Fin 1], [Fin (3/2), Fin 0]]\<rparr>] None =
     Inr \<lparr>y_pred = Matrix [[Fin (3/2), Fin 0], [Fin (3/2), Fin 1]]\<rparr> \<and>
   column 0 (y_pred \<lparr>y_pred = Matrix [[Fin (3/2), Fin 0], [Fin (3/2), Fin 1]]\<rparr>) =
   column 0 (y_pred \<lparr>y_pred = Matrix [[Fin (3/2), Fin 1], [Fin (3/2), Fin 0]]\<rparr>) \<and>
   column 1 (y_pred \<lparr>y_pred = Matrix [[Fin (3/2), Fin 0], [Fin (3/2), Fin 1]]\<rparr>) = Inr [Fin 0, Fin 1]"
proof -
  let ?cls = "\<lparr>label_names = [''a'', ''b''], check_y_pred_dimensions = (\<lambda>a. None)\<rparr>"
  have a: "combine ?cls [\<lparr>y_pred = Matrix [[Fin 0, Fin 0], [Fin 0, Fin 1]]\<rparr>] None =
     Inr \<lparr>y_pred = Matrix [[Fin (3/2), Fin 1], [Fin (3/2), Fin 0]]\<rparr>"
    by (simp add: rank_eval)
  have b: "combine ?cls [\<lparr>y_pred = Matrix [[Fin (3/2), Fin 1], [Fin (3/2), Fin 0]]\<rparr>] None =
     Inr \<lparr>y_pred = Matrix [[Fin (3/2), Fin 0], [Fin (3/2), Fin 1]]\<rparr>"
    by (simp add: rank_eval)
  have c: "column 1 (y_pred \<lparr>y_pred = Matrix [[Fin (3/2), Fin 0], [Fin (3/2), Fin 1]]\<rparr>) = Inr [Fin 0, Fin 1]"
    by simp
  from combine_twice_column0 [OF a b] a b c show ?thesis by blast
qed

end
